theory Spec2Isabelle
  imports Main
begin

section \<open>Python values, exceptions and the shared cache store\<close>

text \<open>
  The exceptions the two ingestion modules raise, catch or let through.
  \<open>UnpicklingError\<close> stands for whatever \<open>pickle.loads\<close> raises on bytes that are
  not a pickle, \<open>EvalError\<close> for whatever \<open>eval\<close> raises on text that is not a
  Python boolean literal, \<open>RedisError\<close> for a failed write to the shared store.
\<close>

datatype exc =
    DoesNotExist | IntegrityError | InternalError
  | KeyError | TypeError | AttributeError | RuntimeError | UnboundLocalError
  | UnpicklingError | EvalError | RedisError
  | MaintenanceError
  | PydestException | PydestMaintenanceException | PydestPrivateHistoryException
  | TimeoutError | RateLimitException

text \<open>The JSON documents the upstream service answers with, as Python sees them.\<close>

datatype pyval =
    PNone | PBool bool | PInt int | PStr string
  | PList "pyval list" | PDict "(string \<times> pyval) list"

text \<open>\<open>d[k]\<close>: KeyError on a dict without the key, TypeError on anything that is
  not a dict (None, a list or a string indexed by a string).\<close>

fun py_getitem :: "pyval \<Rightarrow> string \<Rightarrow> exc + pyval" where
  "py_getitem (PDict kvs) k =
     (case map_of kvs k of None \<Rightarrow> Inl KeyError | Some v \<Rightarrow> Inr v)"
| "py_getitem _ k = Inl TypeError"

text \<open>Truthiness, as \<open>if x:\<close> and \<open>not x\<close> read it.\<close>

fun py_truthy :: "pyval \<Rightarrow> bool" where
  "py_truthy PNone = False"
| "py_truthy (PBool b) = b"
| "py_truthy (PInt i) = (i \<noteq> 0)"
| "py_truthy (PStr s) = (s \<noteq> [])"
| "py_truthy (PList xs) = (xs \<noteq> [])"
| "py_truthy (PDict kvs) = (kvs \<noteq> [])"

text \<open>\<open>for x in v\<close>: a list gives its items, a dict its keys, a string its
  characters; None, a bool and an int are not iterable.\<close>

fun py_iter :: "pyval \<Rightarrow> exc + pyval list" where
  "py_iter (PList xs) = Inr xs"
| "py_iter (PDict kvs) = Inr (map (\<lambda>kv. PStr (fst kv)) kvs)"
| "py_iter (PStr s) = Inr (map (\<lambda>c. PStr [c]) s)"
| "py_iter _ = Inl TypeError"

text \<open>Decimal text of an integer, as an f-string formats it.\<close>

fun digits :: "nat \<Rightarrow> string" where
  "digits n =
     (if n < 10 then [char_of (48 + n)]
      else digits (n div 10) @ [char_of (48 + n mod 10)])"

definition str_int :: "int \<Rightarrow> string" where
  "str_int i = (if i < 0 then CHR ''-'' # digits (nat (- i)) else digits (nat i))"

text \<open>\<open>v.keys()\<close>: only a dict has the method.\<close>

fun py_keys :: "pyval \<Rightarrow> exc + string list" where
  "py_keys (PDict kvs) = Inr (map fst kvs)"
| "py_keys _ = Inl AttributeError"

text \<open>
  A value of the shared store is a byte string: either the pickle of a Python
  value, or bytes that are no pickle (the text \<open>str(True)\<close> of the maintenance
  flag, or a damaged entry). \<open>pickle.loads(pickle.dumps(v))\<close> is \<open>v\<close>; bytes that
  are no pickle do not load.
\<close>

datatype blob = Pickle pyval | RawBytes string

definition pickle_dumps :: "pyval \<Rightarrow> blob" where
  "pickle_dumps v = Pickle v"

fun pickle_loads :: "blob \<Rightarrow> exc + pyval" where
  "pickle_loads (Pickle v) = Inr v"
| "pickle_loads (RawBytes s) = Inl UnpicklingError"

text \<open>\<open>if redis_data:\<close> on bytes: a pickle is never empty.\<close>

fun blob_truthy :: "blob \<Rightarrow> bool" where
  "blob_truthy (Pickle v) = True"
| "blob_truthy (RawBytes s) = (s \<noteq> [])"

text \<open>\<open>eval(is_maintenance)\<close>, read for its truth: the flag is only ever written
  as \<open>str(True)\<close>, so the two boolean literals are evaluated and anything else is
  an error.\<close>

fun py_eval :: "blob \<Rightarrow> exc + bool" where
  "py_eval (RawBytes s) =
     (if s = ''True'' then Inr True
      else if s = ''False'' then Inr False
      else Inl EvalError)"
| "py_eval (Pickle v) = Inl EvalError"

section \<open>The data model of \<open>seraphsix/tasks/activity.py\<close>\<close>

text \<open>
  The module \<open>seraphsix.constants\<close> is not among the sources: its values are
  parameters of the model, one field per constant the code reads.
\<close>

record mode_details =
  threshold :: int
  title :: string

record constants =
  c_PLATFORM_BUNGIE :: int
  c_PLATFORM_PSN :: int
  c_PLATFORM_XBOX :: int
  c_PLATFORM_BLIZZARD :: int
  c_PLATFORM_STEAM :: int
  c_PLATFORM_STADIA :: int
  c_COMPONENT_CHARACTERS :: int
  c_TIME_MIN_SECONDS :: nat
  c_TIME_HOUR_SECONDS :: nat
  c_FORSAKEN_RELEASE :: int
  c_SUPPORTED_GAME_MODES :: "string \<Rightarrow> int list option"
  c_MODE_MAP :: "int \<Rightarrow> mode_details option"

text \<open>A member row joined with its clan membership, as the code reads it. Dates
  are seconds since the epoch.\<close>

record clanmember =
  platform_id :: int
  clan_id :: nat
  join_date :: int
  last_active :: int

record member_db =
  m_id :: nat
  bungie_id :: int
  bungie_username :: string
  psn_id :: int
  psn_username :: string
  xbox_id :: int
  xbox_username :: string
  blizzard_id :: int
  blizzard_username :: string
  steam_id :: int
  steam_username :: string
  stadia_id :: int
  stadia_username :: string
  clanmember :: clanmember

text \<open>What \<open>ClanGame(pgcr, member_dbs)\<close> holds: the parsed match and its tracked
  players. The class is in \<open>seraphsix.models.destiny\<close>, not among the sources, so
  the constructor is a parameter of the functions below.\<close>

record clan_player =
  membership_id :: int
  membership_type :: int
  completed :: bool
  time_played :: int

record clan_game =
  instance_id :: int
  date :: int
  mode_id :: int
  clan_players :: "clan_player list"

text \<open>The rows of the durable store.\<close>

record game_db =
  game_pk :: nat
  g_instance_id :: int
  g_date :: int
  g_mode_id :: int

record game_member_db =
  gm_member :: nat
  gm_game :: nat
  gm_completed :: bool
  gm_time_played :: int

record guild_db =
  guild_id :: int
  aggregate_clans :: bool

record clan_db =
  clan_pk :: nat
  clan_guild :: int
  activity_tracking :: bool

text \<open>The requests the code sends upstream, each with its arguments.\<close>

datatype request =
    GetActivityHistory int int string int int
  | GetPostGameCarnageReport pyval
  | GetProfile int int "int list"

text \<open>
  Everything the functions read and change: the shared store (each entry with the
  time it expires at), the clock, whether a write to the shared store succeeds,
  the requests that reached upstream, the tables of the durable store, and the
  counts \<open>store_all_games\<close> wrote to the log.
\<close>

record world =
  redis :: "string \<Rightarrow> (blob \<times> nat) option"
  clock :: nat
  redis_writable :: bool
  upstream_log :: "request list"
  games :: "game_db list"
  next_game_pk :: nat
  clan_games :: "(nat \<times> nat) list"
  game_members :: "game_member_db list"
  member_table :: "member_db list"
  guilds :: "guild_db list"
  clans :: "clan_db list"
  summaries :: "int list"

text \<open>\<open>bot\<close>: the upstream client (its answer to a request may depend on the
  requests made before) and the configured cutoff date.\<close>

record bot =
  destiny :: "request list \<Rightarrow> request \<Rightarrow> exc + pyval"
  activity_cutoff :: int

subsection \<open>The shared store\<close>

text \<open>Modelled from the spec: the cache client is an external collaborator with
  get and set-with-expiry on opaque blobs; an entry is gone once its time is up.\<close>

definition redis_get :: "world \<Rightarrow> string \<Rightarrow> blob option" where
  "redis_get w k =
     (case redis w k of
        None \<Rightarrow> None
      | Some be \<Rightarrow> if clock w < snd be then Some (fst be) else None)"

definition redis_set :: "world \<Rightarrow> string \<Rightarrow> blob \<Rightarrow> nat \<Rightarrow> (exc + unit) \<times> world" where
  "redis_set w k b expire =
     (if redis_writable w
      then (Inr (), w\<lparr>redis := (redis w)(k \<mapsto> (b, clock w + expire))\<rparr>)
      else (Inl RedisError, w))"

text \<open>\<open>if redis_data:\<close>: the cached bytes when there are some, and they are not
  empty.\<close>

definition cached :: "world \<Rightarrow> string \<Rightarrow> blob option" where
  "cached w k =
     (case redis_get w k of
        None \<Rightarrow> None
      | Some b \<Rightarrow> if blob_truthy b then Some b else None)"

section \<open>The API access layer\<close>

text \<open>Awaiting the coroutine of an upstream call sends the request: it is
  recorded, and upstream answers with a document or an exception.\<close>

definition await_upstream :: "bot \<Rightarrow> request \<Rightarrow> world \<Rightarrow> (exc + pyval) \<times> world" where
  "await_upstream b func w =
     (destiny b (upstream_log w) func, w\<lparr>upstream_log := upstream_log w @ [func]\<rparr>)"

text \<open>
  \<open>execute_pydest(function, redis)\<close>, one run of its body. \<open>@limits\<close> and the
  four \<open>@backoff.on_exception\<close> wrappers decide, by wall-clock time, whether the
  body is entered again after an exception; they are not part of this function.

  The maintenance flag is read first. When it is set and evaluates to true the
  body awaits \<open>function\<close> and then raises MaintenanceError; an exception of the
  awaited call gets out in its place. Otherwise the call is awaited, and an
  upstream maintenance exception sets the flag for a minute and becomes
  MaintenanceError.
\<close>

definition execute_pydest ::
  "constants \<Rightarrow> bot \<Rightarrow> request \<Rightarrow> world \<Rightarrow> (exc + pyval) \<times> world" where
  "execute_pydest c b func w =
     (let is_maintenance = redis_get w ''global-bungie-maintenance'';
          flag = (case is_maintenance of
                    None \<Rightarrow> Inr False
                  | Some v \<Rightarrow> if blob_truthy v then py_eval v else Inr False)
      in case flag of
           Inl e \<Rightarrow> (Inl e, w)
         | Inr True \<Rightarrow>
             (case await_upstream b func w of
                (Inl e, w1) \<Rightarrow> (Inl e, w1)
              | (Inr r, w1) \<Rightarrow> (Inl MaintenanceError, w1))
         | Inr False \<Rightarrow>
             (case await_upstream b func w of
                (Inl e, w1) \<Rightarrow>
                  if e = PydestMaintenanceException
                  then (case redis_set w1 ''global-bungie-maintenance'' (RawBytes ''True'')
                               (c_TIME_MIN_SECONDS c) of
                          (Inl e2, w2) \<Rightarrow> (Inl e2, w2)
                        | (Inr u, w2) \<Rightarrow> (Inl MaintenanceError, w2))
                  else (Inl e, w1)
              | (Inr r, w1) \<Rightarrow> (Inr r, w1)))"

definition get_data ::
  "constants \<Rightarrow> bot \<Rightarrow> string \<Rightarrow> request \<Rightarrow> world \<Rightarrow> (exc + pyval) \<times> world" where
  "get_data c b key func w =
     (case cached w key of
        Some redis_data \<Rightarrow> (pickle_loads redis_data, w)
      | None \<Rightarrow> execute_pydest c b func w)"

text \<open>\<open>set_data\<close>: an exception of the write is logged and swallowed.\<close>

definition set_data :: "world \<Rightarrow> string \<Rightarrow> pyval \<Rightarrow> nat \<Rightarrow> world" where
  "set_data w key data expire = snd (redis_set w key (pickle_dumps data) expire)"

text \<open>\<open>data[k1][k2]\<close> and \<open>data[k1][k2][k3]\<close>.\<close>

definition py_getitem2 :: "pyval \<Rightarrow> string \<Rightarrow> string \<Rightarrow> exc + pyval" where
  "py_getitem2 d k1 k2 =
     (case py_getitem d k1 of Inl e \<Rightarrow> Inl e | Inr v \<Rightarrow> py_getitem v k2)"

definition py_getitem3 :: "pyval \<Rightarrow> string \<Rightarrow> string \<Rightarrow> string \<Rightarrow> exc + pyval" where
  "py_getitem3 d k1 k2 k3 =
     (case py_getitem2 d k1 k2 of Inl e \<Rightarrow> Inl e | Inr v \<Rightarrow> py_getitem v k3)"

text \<open>\<open>get_activity_history\<close>: the key holds the member id only. A response
  without the activities (KeyError) is None, returned without caching.\<close>

definition get_activity_history ::
  "constants \<Rightarrow> bot \<Rightarrow> int \<Rightarrow> int \<Rightarrow> string \<Rightarrow> int \<Rightarrow> int \<Rightarrow> world
     \<Rightarrow> (exc + pyval) \<times> world" where
  "get_activity_history c b platform member_id char_id mode cnt w =
     (let redis_key = str_int member_id @ ''-activity-history'' in
      case cached w redis_key of
        Some redis_data \<Rightarrow> (pickle_loads redis_data, w)
      | None \<Rightarrow>
          (case execute_pydest c b (GetActivityHistory platform member_id char_id mode cnt) w of
             (Inl e, w1) \<Rightarrow> (Inl e, w1)
           | (Inr data, w1) \<Rightarrow>
               (case py_getitem2 data ''Response'' ''activities'' of
                  Inl e \<Rightarrow> if e = KeyError then (Inr PNone, w1) else (Inl e, w1)
                | Inr activities \<Rightarrow>
                    (Inr activities,
                     set_data w1 redis_key activities (c_TIME_MIN_SECONDS c * 45)))))"

text \<open>An f-string formats a value of the response into the key of a match
  report; only the scalar ids the service issues are formatted exactly.\<close>

fun py_str :: "pyval \<Rightarrow> string" where
  "py_str (PStr s) = s"
| "py_str (PInt i) = str_int i"
| "py_str (PBool b) = (if b then ''True'' else ''False'')"
| "py_str PNone = ''None''"
| "py_str (PList xs) = ''[...]''"
| "py_str (PDict kvs) = ''{...}''"

definition get_pgcr ::
  "constants \<Rightarrow> bot \<Rightarrow> pyval \<Rightarrow> world \<Rightarrow> (exc + pyval) \<times> world" where
  "get_pgcr c b activity_id w =
     (let redis_key = py_str activity_id @ ''-pcgr'' in
      case cached w redis_key of
        Some redis_data \<Rightarrow> (pickle_loads redis_data, w)
      | None \<Rightarrow>
          (case execute_pydest c b (GetPostGameCarnageReport activity_id) w of
             (Inl e, w1) \<Rightarrow> (Inl e, w1)
           | (Inr data, w1) \<Rightarrow>
               (case py_getitem data ''Response'' of
                  Inl e \<Rightarrow> (Inl e, w1)
                | Inr pgcr \<Rightarrow>
                    (Inr pgcr, set_data w1 redis_key pgcr (c_TIME_HOUR_SECONDS c)))))"

definition get_characters ::
  "constants \<Rightarrow> bot \<Rightarrow> int \<Rightarrow> int \<Rightarrow> world \<Rightarrow> (exc + pyval) \<times> world" where
  "get_characters c b member_id platform w =
     (let redis_key = str_int member_id @ ''-profile'' in
      case cached w redis_key of
        Some redis_data \<Rightarrow> (pickle_loads redis_data, w)
      | None \<Rightarrow>
          (case execute_pydest c b
                  (GetProfile platform member_id [c_COMPONENT_CHARACTERS c]) w of
             (Inl e, w1) \<Rightarrow> (Inl e, w1)
           | (Inr data, w1) \<Rightarrow>
               (case py_getitem3 data ''Response'' ''characters'' ''data'' of
                  Inl e \<Rightarrow> (Inl e, w1)
                | Inr characters \<Rightarrow>
                    (Inr characters,
                     set_data w1 redis_key characters (c_TIME_HOUR_SECONDS c)))))"

text \<open>The instance ids of a list of activities; the first activity without
  one raises.\<close>

fun instance_ids :: "pyval list \<Rightarrow> exc + pyval list" where
  "instance_ids [] = Inr []"
| "instance_ids (activity # rest) =
     (case py_getitem2 activity ''activityDetails'' ''instanceId'' of
        Inl e \<Rightarrow> Inl e
      | Inr i \<Rightarrow> (case instance_ids rest of Inl e \<Rightarrow> Inl e | Inr is \<Rightarrow> Inr (i # is)))"

text \<open>
  \<open>get_activity_list\<close>, the loop over the characters with the ids found so far.
  Only RuntimeError of the first await is caught; the second await is of the
  same, finished coroutine, which raises RuntimeError again, and that one is
  swallowed: the character is skipped.
\<close>

fun get_activity_list_chars ::
  "constants \<Rightarrow> bot \<Rightarrow> int \<Rightarrow> int \<Rightarrow> int \<Rightarrow> int \<Rightarrow> string list \<Rightarrow> pyval list \<Rightarrow> world
     \<Rightarrow> (exc + pyval list) \<times> world" where
  "get_activity_list_chars c b platform member_id mode cnt [] all_activity_ids w =
     (Inr all_activity_ids, w)"
| "get_activity_list_chars c b platform member_id mode cnt (char_id # rest) all_activity_ids w =
     (case get_activity_history c b platform member_id char_id mode cnt w of
        (Inl e, w1) \<Rightarrow>
          if e = RuntimeError
          then get_activity_list_chars c b platform member_id mode cnt rest all_activity_ids w1
          else (Inl e, w1)
      | (Inr activities, w1) \<Rightarrow>
          if \<not> py_truthy activities
          then get_activity_list_chars c b platform member_id mode cnt rest all_activity_ids w1
          else (case py_iter activities of
                  Inl e \<Rightarrow> (Inl e, w1)
                | Inr items \<Rightarrow>
                    (case instance_ids items of
                       Inl e \<Rightarrow> (Inl e, w1)
                     | Inr ids \<Rightarrow>
                         get_activity_list_chars c b platform member_id mode cnt rest
                           (all_activity_ids @ ids) w1)))"

definition get_activity_list ::
  "constants \<Rightarrow> bot \<Rightarrow> int \<Rightarrow> int \<Rightarrow> string list \<Rightarrow> int \<Rightarrow> world
     \<Rightarrow> (exc + pyval list) \<times> world" where
  "get_activity_list c b platform member_id char_ids mode w =
     get_activity_list_chars c b platform member_id mode 30 char_ids [] w"

section \<open>The durable store\<close>

text \<open>
  Modelled from the spec: the module \<open>seraphsix.database\<close> (the tables and the
  manager's \<open>get\<close>, \<open>create\<close>, \<open>update\<close>, \<open>get_clan_member_by_platform\<close>,
  \<open>get_clans_by_guild\<close> and \<open>get_clan_members_active\<close>) is not among the sources.
  The spec gives its contract: typed create, get and update on each table, a
  Game unique by activity id, a GameMember unique by (game, member), a clan-game
  link unique by (clan, game), and a uniqueness violation (IntegrityError) told
  apart from not found (DoesNotExist). Calls run one after the other on the
  tables; no other writer is interleaved.
\<close>

definition db_get_game :: "world \<Rightarrow> int \<Rightarrow> exc + game_db" where
  "db_get_game w iid =
     (case find (\<lambda>g. g_instance_id g = iid) (games w) of
        None \<Rightarrow> Inl DoesNotExist
      | Some g \<Rightarrow> Inr g)"

definition db_create_game :: "world \<Rightarrow> clan_game \<Rightarrow> (exc + game_db) \<times> world" where
  "db_create_game w game =
     (if \<exists>g \<in> set (games w). g_instance_id g = instance_id game
      then (Inl IntegrityError, w)
      else (let row = \<lparr>game_pk = next_game_pk w, g_instance_id = instance_id game,
                        g_date = date game, g_mode_id = mode_id game\<rparr>
            in (Inr row, w\<lparr>games := games w @ [row], next_game_pk := Suc (next_game_pk w)\<rparr>)))"

definition db_get_clan_game :: "world \<Rightarrow> nat \<Rightarrow> nat \<Rightarrow> exc + unit" where
  "db_get_clan_game w clan game =
     (if (clan, game) \<in> set (clan_games w) then Inr () else Inl DoesNotExist)"

definition db_create_clan_game :: "world \<Rightarrow> nat \<Rightarrow> nat \<Rightarrow> (exc + unit) \<times> world" where
  "db_create_clan_game w clan game =
     (if (clan, game) \<in> set (clan_games w)
      then (Inl IntegrityError, w)
      else (Inr (), w\<lparr>clan_games := clan_games w @ [(clan, game)]\<rparr>))"

text \<open>The id a member row holds for a platform; no id for a platform the
  constants do not name.\<close>

definition platform_member_id :: "constants \<Rightarrow> member_db \<Rightarrow> int \<Rightarrow> int option" where
  "platform_member_id c m p =
     (if p = c_PLATFORM_BUNGIE c then Some (bungie_id m)
      else if p = c_PLATFORM_PSN c then Some (psn_id m)
      else if p = c_PLATFORM_XBOX c then Some (xbox_id m)
      else if p = c_PLATFORM_BLIZZARD c then Some (blizzard_id m)
      else if p = c_PLATFORM_STEAM c then Some (steam_id m)
      else if p = c_PLATFORM_STADIA c then Some (stadia_id m)
      else None)"

definition db_get_clan_member_by_platform ::
  "constants \<Rightarrow> world \<Rightarrow> int \<Rightarrow> int \<Rightarrow> nat \<Rightarrow> exc + member_db" where
  "db_get_clan_member_by_platform c w member_id platform clan =
     (case find (\<lambda>m. clan_id (clanmember m) = clan
                      \<and> platform_member_id c m platform = Some member_id) (member_table w) of
        None \<Rightarrow> Inl DoesNotExist
      | Some m \<Rightarrow> Inr m)"

definition same_pair :: "game_member_db \<Rightarrow> nat \<Rightarrow> nat \<Rightarrow> bool" where
  "same_pair r game member = (gm_game r = game \<and> gm_member r = member)"

definition db_create_game_member :: "world \<Rightarrow> game_member_db \<Rightarrow> (exc + unit) \<times> world" where
  "db_create_game_member w row =
     (if \<exists>r \<in> set (game_members w). same_pair r (gm_game row) (gm_member row)
      then (Inl IntegrityError, w)
      else (Inr (), w\<lparr>game_members := game_members w @ [row]\<rparr>))"

definition db_get_game_member :: "world \<Rightarrow> nat \<Rightarrow> nat \<Rightarrow> exc + game_member_db" where
  "db_get_game_member w game member =
     (case find (\<lambda>r. same_pair r game member) (game_members w) of
        None \<Rightarrow> Inl DoesNotExist
      | Some r \<Rightarrow> Inr r)"

definition db_update_game_member :: "world \<Rightarrow> game_member_db \<Rightarrow> world" where
  "db_update_game_member w row =
     w\<lparr>game_members :=
          map (\<lambda>r. if same_pair r (gm_game row) (gm_member row) then row else r)
            (game_members w)\<rparr>"




section \<open>Eligibility and aggregation: \<open>store_member_history\<close>\<close>

text \<open>\<open>parse_platform\<close>: six branches; for any other platform id neither variable
  is assigned and the return statement raises UnboundLocalError.\<close>

definition parse_platform :: "constants \<Rightarrow> member_db \<Rightarrow> int \<Rightarrow> exc + int \<times> string" where
  "parse_platform c m p =
     (if p = c_PLATFORM_BUNGIE c then Inr (bungie_id m, bungie_username m)
      else if p = c_PLATFORM_PSN c then Inr (psn_id m, psn_username m)
      else if p = c_PLATFORM_XBOX c then Inr (xbox_id m, xbox_username m)
      else if p = c_PLATFORM_BLIZZARD c then Inr (blizzard_id m, blizzard_username m)
      else if p = c_PLATFORM_STEAM c then Inr (steam_id m, steam_username m)
      else if p = c_PLATFORM_STADIA c then Inr (stadia_id m, stadia_username m)
      else Inl UnboundLocalError)"

text \<open>The eligibility test of a parsed match, as the source writes it: the match
  is skipped when any of the four comparisons holds.\<close>

definition not_eligible :: "constants \<Rightarrow> bot \<Rightarrow> member_db \<Rightarrow> clan_game \<Rightarrow> mode_details \<Rightarrow> bool" where
  "not_eligible c b m game game_mode_details =
     (int (length (clan_players game)) < threshold game_mode_details
      \<or> date game < c_FORSAKEN_RELEASE c
      \<or> date game < activity_cutoff b
      \<or> date game < join_date (clanmember m))"

text \<open>The read-modify-write of an existing GameMember row: time played is
  added, and the flag is assigned the player's whenever the stored one is false
  or differs from it.\<close>

definition merge_game_member :: "game_member_db \<Rightarrow> clan_player \<Rightarrow> game_member_db" where
  "merge_game_member game_member_db player =
     (let r = game_member_db\<lparr>gm_time_played := gm_time_played game_member_db + time_played player\<rparr>
      in if \<not> gm_completed r \<or> gm_completed r \<noteq> completed player
         then r\<lparr>gm_completed := completed player\<rparr>
         else r)"

text \<open>The loop over \<open>game.clan_players\<close>.\<close>

fun store_players ::
  "constants \<Rightarrow> member_db \<Rightarrow> game_db \<Rightarrow> clan_player list \<Rightarrow> world \<Rightarrow> (exc + unit) \<times> world" where
  "store_players c m g [] w = (Inr (), w)"
| "store_players c m g (player # rest) w =
     (case db_get_clan_member_by_platform c w (membership_id player) (membership_type player)
             (clan_id (clanmember m)) of
        Inl e \<Rightarrow> (Inl e, w)
      | Inr player_db \<Rightarrow>
          (case db_create_game_member w
                  \<lparr>gm_member = m_id player_db, gm_game = game_pk g,
                   gm_completed = completed player, gm_time_played = time_played player\<rparr> of
             (Inr u, w1) \<Rightarrow> store_players c m g rest w1
           | (Inl e, w1) \<Rightarrow>
               if e = IntegrityError
               then (case db_get_game_member w1 (game_pk g) (m_id player_db) of
                       Inl e2 \<Rightarrow> (Inl e2, w1)
                     | Inr game_member_db \<Rightarrow>
                         store_players c m g rest
                           (db_update_game_member w1 (merge_game_member game_member_db player)))
               else (Inl e, w1)))"

text \<open>The clan-game link and, when it is new, the membership rows.\<close>

definition store_clan_game ::
  "constants \<Rightarrow> member_db \<Rightarrow> clan_game \<Rightarrow> game_db \<Rightarrow> world \<Rightarrow> (exc + unit) \<times> world" where
  "store_clan_game c m game g w =
     (case db_get_clan_game w (clan_id (clanmember m)) (game_pk g) of
        Inr u \<Rightarrow> (Inr (), w)
      | Inl e \<Rightarrow>
          if e = DoesNotExist
          then (case db_create_clan_game w (clan_id (clanmember m)) (game_pk g) of
                  (Inl e2, w1) \<Rightarrow> (Inl e2, w1)
                | (Inr u, w1) \<Rightarrow> store_players c m g (clan_players game) w1)
          else (Inl e, w))"

text \<open>
  The body of the loop over the activity ids from the parsed match on: the
  eligibility test, the Game row (looked up, created when not found, and then
  counted), the link and the membership rows. The result is the new
  \<open>mode_count\<close>.
\<close>

definition store_game ::
  "constants \<Rightarrow> bot \<Rightarrow> member_db \<Rightarrow> clan_game \<Rightarrow> nat \<Rightarrow> world \<Rightarrow> (exc + nat) \<times> world" where
  "store_game c b m game mode_count w =
     (case c_MODE_MAP c (mode_id game) of
        None \<Rightarrow> (Inl KeyError, w)
      | Some game_mode_details \<Rightarrow>
          if not_eligible c b m game game_mode_details then (Inr mode_count, w)
          else (case db_get_game w (instance_id game) of
                  Inr g \<Rightarrow>
                    (case store_clan_game c m game g w of
                       (Inl e, w1) \<Rightarrow> (Inl e, w1)
                     | (Inr u, w1) \<Rightarrow> (Inr mode_count, w1))
                | Inl e \<Rightarrow>
                    if e = DoesNotExist
                    then (case db_create_game w game of
                            (Inl e2, w1) \<Rightarrow> (Inl e2, w1)
                          | (Inr g, w1) \<Rightarrow>
                              (case store_clan_game c m game g w1 of
                                 (Inl e3, w2) \<Rightarrow> (Inl e3, w2)
                               | (Inr u, w2) \<Rightarrow> (Inr (Suc mode_count), w2)))
                    else (Inl e, w)))"

text \<open>The match report of an activity: fetched, and fetched once more after a
  RuntimeError; None when the second fetch raises anything, which skips the
  activity.\<close>

definition fetch_pgcr ::
  "constants \<Rightarrow> bot \<Rightarrow> pyval \<Rightarrow> world \<Rightarrow> (exc + pyval option) \<times> world" where
  "fetch_pgcr c b activity_id w =
     (case get_pgcr c b activity_id w of
        (Inr pgcr, w1) \<Rightarrow> (Inr (Some pgcr), w1)
      | (Inl e, w1) \<Rightarrow>
          if e = RuntimeError
          then (case get_pgcr c b activity_id w1 of
                  (Inr pgcr, w2) \<Rightarrow> (Inr (Some pgcr), w2)
                | (Inl e2, w2) \<Rightarrow> (Inr None, w2))
          else (Inl e, w1))"

text \<open>The loop over \<open>all_activity_ids\<close>, with \<open>mode_count\<close> so far.\<close>

fun store_activities ::
  "constants \<Rightarrow> (pyval \<Rightarrow> member_db list \<Rightarrow> exc + clan_game) \<Rightarrow> member_db list \<Rightarrow> bot
     \<Rightarrow> member_db \<Rightarrow> pyval list \<Rightarrow> nat \<Rightarrow> world \<Rightarrow> (exc + nat) \<times> world" where
  "store_activities c ClanGame member_dbs b m [] mode_count w = (Inr mode_count, w)"
| "store_activities c ClanGame member_dbs b m (activity_id # rest) mode_count w =
     (case fetch_pgcr c b activity_id w of
        (Inl e, w1) \<Rightarrow> (Inl e, w1)
      | (Inr None, w1) \<Rightarrow> store_activities c ClanGame member_dbs b m rest mode_count w1
      | (Inr (Some pgcr), w1) \<Rightarrow>
          if \<not> py_truthy pgcr
          then store_activities c ClanGame member_dbs b m rest mode_count w1
          else (case ClanGame pgcr member_dbs of
                  Inl e \<Rightarrow> (Inl e, w1)
                | Inr game \<Rightarrow>
                    (case store_game c b m game mode_count w1 of
                       (Inl e, w2) \<Rightarrow> (Inl e, w2)
                     | (Inr mode_count2, w2) \<Rightarrow>
                         store_activities c ClanGame member_dbs b m rest mode_count2 w2)))"

text \<open>The loop over the mode ids of the category, collecting the activity ids.\<close>

fun collect_activity_ids ::
  "constants \<Rightarrow> bot \<Rightarrow> int \<Rightarrow> int \<Rightarrow> string list \<Rightarrow> int list \<Rightarrow> pyval list \<Rightarrow> world
     \<Rightarrow> (exc + pyval list) \<times> world" where
  "collect_activity_ids c b platform member_id char_ids [] all_activity_ids w =
     (Inr all_activity_ids, w)"
| "collect_activity_ids c b platform member_id char_ids (game_mode_id # rest) all_activity_ids w =
     (case get_activity_list c b platform member_id char_ids game_mode_id w of
        (Inl e, w1) \<Rightarrow> (Inl e, w1)
      | (Inr activity_ids, w1) \<Rightarrow>
          collect_activity_ids c b platform member_id char_ids rest
            (all_activity_ids @ activity_ids) w1)"

text \<open>
  \<open>store_member_history(member_dbs, bot, member_db, game_mode)\<close>. The result is
  \<open>Some mode_count\<close> when the count is not zero, and None otherwise (the function
  ends without a return statement, and returns early when the characters
  cannot be read).
\<close>

definition store_member_history ::
  "constants \<Rightarrow> (pyval \<Rightarrow> member_db list \<Rightarrow> exc + clan_game) \<Rightarrow> member_db list \<Rightarrow> bot
     \<Rightarrow> member_db \<Rightarrow> string \<Rightarrow> world \<Rightarrow> (exc + nat option) \<times> world" where
  "store_member_history c ClanGame member_dbs b m game_mode w =
     (case parse_platform c m (platform_id (clanmember m)) of
        Inl e \<Rightarrow> (Inl e, w)
      | Inr (member_id, member_username) \<Rightarrow>
          (case get_characters c b member_id (platform_id (clanmember m)) w of
             (Inl e, w1) \<Rightarrow>
               if e = KeyError \<or> e = TypeError then (Inr None, w1) else (Inl e, w1)
           | (Inr characters, w1) \<Rightarrow>
               (case py_keys characters of
                  Inl e \<Rightarrow> (Inl e, w1)
                | Inr char_ids \<Rightarrow>
                    (case c_SUPPORTED_GAME_MODES c game_mode of
                       None \<Rightarrow> (Inl TypeError, w1)
                     | Some modes \<Rightarrow>
                         (case collect_activity_ids c b (platform_id (clanmember m)) member_id
                                 char_ids modes [] w1 of
                            (Inl e, w2) \<Rightarrow> (Inl e, w2)
                          | (Inr all_activity_ids, w2) \<Rightarrow>
                              (case store_activities c ClanGame member_dbs b m
                                      all_activity_ids 0 w2 of
                                 (Inl e, w3) \<Rightarrow> (Inl e, w3)
                               | (Inr mode_count, w3) \<Rightarrow>
                                   (if mode_count \<noteq> 0 then (Inr (Some mode_count), w3)
                                    else (Inr None, w3))))))))"

section \<open>The fan-out: \<open>store_all_games\<close>\<close>








section \<open>The legacy flow: \<open>bot_activity.py\<close>\<close>

definition PLATFORM_XBOX :: int where "PLATFORM_XBOX = 1"
definition COMPONENT_CHARACTERS :: int where "COMPONENT_CHARACTERS = 200"

definition MODE_GAMBIT :: int where "MODE_GAMBIT = 63"
definition MODE_RAID :: int where "MODE_RAID = 4"
definition MODE_PVP_CONTROL :: int where "MODE_PVP_CONTROL = 10"
definition MODE_PVP_CLASH :: int where "MODE_PVP_CLASH = 12"
definition MODE_PVP_MAYHEM :: int where "MODE_PVP_MAYHEM = 25"
definition MODE_PVP_SUPREMACY :: int where "MODE_PVP_SUPREMACY = 31"
definition MODE_PVP_SURVIVAL :: int where "MODE_PVP_SURVIVAL = 37"
definition MODE_PVP_COUNTDOWN :: int where "MODE_PVP_COUNTDOWN = 38"
definition MODE_PVP_IRONBANNER_CONTROL :: int where "MODE_PVP_IRONBANNER_CONTROL = 43"
definition MODE_PVP_IRONBANNER_CLASH :: int where "MODE_PVP_IRONBANNER_CLASH = 44"
definition MODE_PVP_DOUBLES :: int where "MODE_PVP_DOUBLES = 50"
definition MODE_PVP_BREAKTHROUGH :: int where "MODE_PVP_BREAKTHROUGH = 65"

definition MODES_PVP_QUICK :: "int list" where
  "MODES_PVP_QUICK =
     [MODE_PVP_CONTROL, MODE_PVP_CLASH, MODE_PVP_MAYHEM,
      MODE_PVP_SUPREMACY, MODE_PVP_DOUBLES,
      MODE_PVP_IRONBANNER_CONTROL, MODE_PVP_IRONBANNER_CLASH]"

definition MODES_PVP_COMP :: "int list" where
  "MODES_PVP_COMP = [MODE_PVP_SURVIVAL, MODE_PVP_COUNTDOWN, MODE_PVP_BREAKTHROUGH]"

definition PLAYER_COUNT :: "int \<Rightarrow> int option" where
  "PLAYER_COUNT =
     map_of
       [(MODE_GAMBIT, 4), (MODE_RAID, 6), (MODE_PVP_DOUBLES, 2),
        (MODE_PVP_CONTROL, 6), (MODE_PVP_CLASH, 6), (MODE_PVP_MAYHEM, 6),
        (MODE_PVP_SUPREMACY, 6), (MODE_PVP_SURVIVAL, 4), (MODE_PVP_COUNTDOWN, 4),
        (MODE_PVP_BREAKTHROUGH, 4), (MODE_PVP_IRONBANNER_CONTROL, 6),
        (MODE_PVP_IRONBANNER_CLASH, 6)]"

text \<open>2018-09-04T18:00:00Z, in seconds since the epoch.\<close>

definition FORSAKEN_RELEASE :: int where "FORSAKEN_RELEASE = 1536084000"

text \<open>
  The rows and the parsed match of the legacy flow. \<open>Game(pgcr['Response'])\<close> is a
  class of the module \<open>members\<close>, not among the sources: the constructor is a
  parameter of the functions below.
\<close>

record legacy_member =
  lm_xbox_username :: string
  lm_bungie_id :: int
  lm_join_date :: int

record game_session =
  gs_member :: string
  gs_mode :: int
  gs_count :: int
  gs_last_updated :: int

record legacy_player =
  lp_name :: string
  lp_completed :: bool

record legacy_game =
  lg_date :: int
  lg_mode_id :: int
  lg_players :: "legacy_player list"

record game_details =
  gd_date :: int
  gd_mode_id :: int
  gd_instance_id :: pyval

text \<open>The calls made on \<open>database\<close>, in order, each with its arguments.\<close>

datatype db_call =
    GetMembers
  | GetMember string
  | GetGameSession string int
  | CreateGame game_details "string list"
  | CreateGameSession string int int
  | UpdateGameSession string int int

record legacy_world =
  lw_members :: "legacy_member list"
  lw_sessions :: "game_session list"
  lw_games :: "game_details list"
  lw_now :: int
  lw_db_log :: "db_call list"
  lw_upstream_log :: "request list"

subsection \<open>The legacy database\<close>

text \<open>
  Modelled from the spec: the \<open>database\<close> object of the legacy flow
  (\<open>get_members\<close>, \<open>get_member\<close>, \<open>get_game_session\<close>, \<open>create_game\<close>,
  \<open>create_game_session\<close>, \<open>update_game_session\<close>) is not among the sources. By
  the spec a game is unique by activity id, the session counter is one row per
  (player, mode) with a running count and a last-updated time, a create on an
  existing row is a uniqueness violation and an update or get of a missing row
  is not found. Every call is recorded.
\<close>

definition logged :: "legacy_world \<Rightarrow> db_call \<Rightarrow> legacy_world" where
  "logged w call = w\<lparr>lw_db_log := lw_db_log w @ [call]\<rparr>"

definition get_members :: "legacy_world \<Rightarrow> (exc + legacy_member list) \<times> legacy_world" where
  "get_members w = (Inr (lw_members w), logged w GetMembers)"

definition get_member :: "legacy_world \<Rightarrow> string \<Rightarrow> (exc + legacy_member) \<times> legacy_world" where
  "get_member w name =
     ((case find (\<lambda>m. lm_xbox_username m = name) (lw_members w) of
         None \<Rightarrow> Inl DoesNotExist
       | Some m \<Rightarrow> Inr m),
      logged w (GetMember name))"

definition is_session :: "string \<Rightarrow> int \<Rightarrow> game_session \<Rightarrow> bool" where
  "is_session name mode s = (gs_member s = name \<and> gs_mode s = mode)"

definition get_game_session ::
  "legacy_world \<Rightarrow> string \<Rightarrow> int \<Rightarrow> (exc + game_session) \<times> legacy_world" where
  "get_game_session w name mode =
     ((case find (is_session name mode) (lw_sessions w) of
         None \<Rightarrow> Inl DoesNotExist
       | Some s \<Rightarrow> Inr s),
      logged w (GetGameSession name mode))"

definition create_game ::
  "legacy_world \<Rightarrow> game_details \<Rightarrow> string list \<Rightarrow> (exc + unit) \<times> legacy_world" where
  "create_game w details players =
     (let w1 = logged w (CreateGame details players) in
      if \<exists>g \<in> set (lw_games w). gd_instance_id g = gd_instance_id details
      then (Inl IntegrityError, w1)
      else (Inr (), w1\<lparr>lw_games := lw_games w @ [details]\<rparr>))"

definition create_game_session ::
  "legacy_world \<Rightarrow> string \<Rightarrow> int \<Rightarrow> int \<Rightarrow> (exc + unit) \<times> legacy_world" where
  "create_game_session w player mode cnt =
     (let w1 = logged w (CreateGameSession player mode cnt) in
      if \<exists>s \<in> set (lw_sessions w). is_session player mode s
      then (Inl IntegrityError, w1)
      else (Inr (),
            w1\<lparr>lw_sessions := lw_sessions w @
                   [\<lparr>gs_member = player, gs_mode = mode, gs_count = cnt,
                     gs_last_updated = lw_now w\<rparr>]\<rparr>))"

definition update_game_session ::
  "legacy_world \<Rightarrow> string \<Rightarrow> int \<Rightarrow> int \<Rightarrow> (exc + unit) \<times> legacy_world" where
  "update_game_session w player mode cnt =
     (let w1 = logged w (UpdateGameSession player mode cnt) in
      if \<exists>s \<in> set (lw_sessions w). is_session player mode s
      then (Inr (),
            w1\<lparr>lw_sessions :=
                   map (\<lambda>s. if is_session player mode s
                             then s\<lparr>gs_count := gs_count s + cnt, gs_last_updated := lw_now w\<rparr>
                             else s)
                     (lw_sessions w)\<rparr>)
      else (Inl DoesNotExist, w1))"

subsection \<open>The upstream calls of the legacy flow\<close>

text \<open>Each of the three getters is one upstream call; its
  \<open>@backoff.on_exception\<close> wrapper (retries for up to a minute of wall-clock
  time) is not part of the function, whose answer here is the wrapper's.\<close>

definition legacy_await ::
  "(request list \<Rightarrow> request \<Rightarrow> exc + pyval) \<Rightarrow> request \<Rightarrow> legacy_world
     \<Rightarrow> (exc + pyval) \<times> legacy_world" where
  "legacy_await d func w =
     (d (lw_upstream_log w) func, w\<lparr>lw_upstream_log := lw_upstream_log w @ [func]\<rparr>)"

definition legacy_get_activity_list ::
  "(request list \<Rightarrow> request \<Rightarrow> exc + pyval) \<Rightarrow> int \<Rightarrow> string \<Rightarrow> int \<Rightarrow> legacy_world
     \<Rightarrow> (exc + pyval) \<times> legacy_world" where
  "legacy_get_activity_list d member_id char_id mode w =
     legacy_await d (GetActivityHistory PLATFORM_XBOX member_id char_id mode 5) w"

definition get_activity ::
  "(request list \<Rightarrow> request \<Rightarrow> exc + pyval) \<Rightarrow> pyval \<Rightarrow> legacy_world
     \<Rightarrow> (exc + pyval) \<times> legacy_world" where
  "get_activity d activity_id w = legacy_await d (GetPostGameCarnageReport activity_id) w"

definition get_profile ::
  "(request list \<Rightarrow> request \<Rightarrow> exc + pyval) \<Rightarrow> int \<Rightarrow> legacy_world
     \<Rightarrow> (exc + pyval) \<times> legacy_world" where
  "get_profile d member_id w =
     legacy_await d (GetProfile PLATFORM_XBOX member_id [COMPONENT_CHARACTERS]) w"

subsection \<open>\<open>get_member_history\<close>\<close>

text \<open>The branch on the mode category: a single mode id, a list of them, or no
  assignment at all.\<close>

datatype mode_choice = OneMode int | ModeList "int list"

definition choose_game_mode_id :: "string \<Rightarrow> mode_choice option" where
  "choose_game_mode_id game_mode =
     (if game_mode = ''gambit'' then Some (OneMode MODE_GAMBIT)
      else if game_mode = ''raid'' then Some (OneMode MODE_RAID)
      else if game_mode = ''pvp'' then Some (ModeList (MODES_PVP_COMP @ MODES_PVP_QUICK))
      else if game_mode = ''pvp-quick'' then Some (ModeList MODES_PVP_QUICK)
      else if game_mode = ''pvp-comp'' then Some (ModeList MODES_PVP_COMP)
      else None)"

fun game_mode_list_of :: "mode_choice \<Rightarrow> int list" where
  "game_mode_list_of (OneMode game_mode_id) = [game_mode_id]"
| "game_mode_list_of (ModeList game_mode_id) = game_mode_id"

text \<open>The loop over \<open>game.players\<close>: the names of the players who completed the
  match, are members, and joined before the match.\<close>

fun find_players ::
  "string list \<Rightarrow> int \<Rightarrow> legacy_player list \<Rightarrow> string list \<Rightarrow> legacy_world
     \<Rightarrow> (exc + string list) \<times> legacy_world" where
  "find_players members game_date [] players w = (Inr players, w)"
| "find_players members game_date (player # rest) players w =
     (if lp_completed player \<and> lp_name player \<in> set members
      then (case get_member w (lp_name player) of
              (Inl e, w1) \<Rightarrow> (Inl e, w1)
            | (Inr member_db, w1) \<Rightarrow>
                if game_date > lm_join_date member_db
                then find_players members game_date rest (players @ [lp_name player]) w1
                else find_players members game_date rest players w1)
      else find_players members game_date rest players w)"

text \<open>The loop over the players of a newly created game: a counter row is
  created with count 1, or updated by 1 when it exists, and \<open>mode_count\<close> grows
  by one per player.\<close>

fun count_players ::
  "int \<Rightarrow> string list \<Rightarrow> int \<Rightarrow> legacy_world \<Rightarrow> (exc + int) \<times> legacy_world" where
  "count_players mode [] mode_count w = (Inr mode_count, w)"
| "count_players mode (player # rest) mode_count w =
     (case create_game_session w player mode 1 of
        (Inr u, w1) \<Rightarrow> count_players mode rest (mode_count + 1) w1
      | (Inl e, w1) \<Rightarrow>
          if e = IntegrityError \<or> e = InternalError
          then (case update_game_session w1 player mode 1 of
                  (Inl e2, w2) \<Rightarrow> (Inl e2, w2)
                | (Inr u, w2) \<Rightarrow> count_players mode rest (mode_count + 1) w2)
          else (Inl e, w1))"

text \<open>The body of the loop over the activity ids: the match is fetched and
  parsed, tested, and created; a uniqueness violation of \<open>create_game\<close> is
  passed over, and the players are counted only when the game was created.\<close>

definition history_activity ::
  "(request list \<Rightarrow> request \<Rightarrow> exc + pyval) \<Rightarrow> (pyval \<Rightarrow> exc + legacy_game) \<Rightarrow> string list
     \<Rightarrow> int \<Rightarrow> int \<Rightarrow> int \<Rightarrow> pyval \<Rightarrow> int \<Rightarrow> legacy_world \<Rightarrow> (exc + int) \<times> legacy_world" where
  "history_activity d Game members member_join_date mode player_threshold activity_id
       mode_count w =
     (case get_activity d activity_id w of
        (Inl e, w1) \<Rightarrow> (Inl e, w1)
      | (Inr pgcr, w1) \<Rightarrow>
          (case py_getitem pgcr ''Response'' of
             Inl e \<Rightarrow> (Inl e, w1)
           | Inr response \<Rightarrow>
               (case Game response of
                  Inl e \<Rightarrow> (Inl e, w1)
                | Inr game \<Rightarrow>
                    (case find_players members (lg_date game) (lg_players game) [] w1 of
                       (Inl e, w2) \<Rightarrow> (Inl e, w2)
                     | (Inr players, w2) \<Rightarrow>
                         if int (length players) < player_threshold
                            \<or> lg_date game < FORSAKEN_RELEASE
                            \<or> lg_date game < member_join_date
                         then (Inr mode_count, w2)
                         else (case create_game w2
                                      \<lparr>gd_date = lg_date game, gd_mode_id = lg_mode_id game,
                                       gd_instance_id = activity_id\<rparr> players of
                                 (Inl e, w3) \<Rightarrow>
                                   if e = IntegrityError then (Inr mode_count, w3)
                                   else (Inl e, w3)
                               | (Inr u, w3) \<Rightarrow> count_players mode players mode_count w3)))))"

fun history_activities ::
  "(request list \<Rightarrow> request \<Rightarrow> exc + pyval) \<Rightarrow> (pyval \<Rightarrow> exc + legacy_game) \<Rightarrow> string list
     \<Rightarrow> int \<Rightarrow> int \<Rightarrow> int \<Rightarrow> pyval list \<Rightarrow> int \<Rightarrow> legacy_world
     \<Rightarrow> (exc + int) \<times> legacy_world" where
  "history_activities d Game members member_join_date mode player_threshold [] mode_count w =
     (Inr mode_count, w)"
| "history_activities d Game members member_join_date mode player_threshold
       (activity_id # rest) mode_count w =
     (case history_activity d Game members member_join_date mode player_threshold activity_id
             mode_count w of
        (Inl e, w1) \<Rightarrow> (Inl e, w1)
      | (Inr mode_count2, w1) \<Rightarrow>
          history_activities d Game members member_join_date mode player_threshold rest
            mode_count2 w1)"

text \<open>The loop over the characters: a response without the activities
  (KeyError) skips the character.\<close>

fun history_chars ::
  "(request list \<Rightarrow> request \<Rightarrow> exc + pyval) \<Rightarrow> (pyval \<Rightarrow> exc + legacy_game) \<Rightarrow> string list
     \<Rightarrow> int \<Rightarrow> int \<Rightarrow> int \<Rightarrow> int \<Rightarrow> string list \<Rightarrow> int \<Rightarrow> legacy_world
     \<Rightarrow> (exc + int) \<times> legacy_world" where
  "history_chars d Game members member_id member_join_date mode player_threshold []
       mode_count w = (Inr mode_count, w)"
| "history_chars d Game members member_id member_join_date mode player_threshold
       (char_id # rest) mode_count w =
     (case legacy_get_activity_list d member_id char_id mode w of
        (Inl e, w1) \<Rightarrow> (Inl e, w1)
      | (Inr activity, w1) \<Rightarrow>
          (case py_getitem2 activity ''Response'' ''activities'' of
             Inl e \<Rightarrow>
               if e = KeyError
               then history_chars d Game members member_id member_join_date mode
                      player_threshold rest mode_count w1
               else (Inl e, w1)
           | Inr activities \<Rightarrow>
               (case py_iter activities of
                  Inl e \<Rightarrow> (Inl e, w1)
                | Inr items \<Rightarrow>
                    (case instance_ids items of
                       Inl e \<Rightarrow> (Inl e, w1)
                     | Inr activity_ids \<Rightarrow>
                         (case history_activities d Game members member_join_date mode
                                 player_threshold activity_ids mode_count w1 of
                            (Inl e, w2) \<Rightarrow> (Inl e, w2)
                          | (Inr mode_count2, w2) \<Rightarrow>
                              history_chars d Game members member_id member_join_date mode
                                player_threshold rest mode_count2 w2)))))"

text \<open>\<open>int(PLAYER_COUNT[mode_id] / 2)\<close>, at least 2; the table holds positive
  counts, for which the truncation is the integer quotient.\<close>

definition player_threshold_of :: "int \<Rightarrow> int" where
  "player_threshold_of player_count =
     (let player_threshold = player_count div 2
      in if player_threshold < 2 then 2 else player_threshold)"

text \<open>The freshness test of a mode: its counter was updated within the last
  hour, and \<open>check_date\<close> is set.\<close>

definition fresh :: "legacy_world \<Rightarrow> game_session \<Rightarrow> bool \<Rightarrow> bool" where
  "fresh w s check_date = (gs_last_updated s > lw_now w - 3600 \<and> check_date)"

text \<open>
  The body of the loop over the mode ids, from the threshold on: the
  characters' activities are processed, and then the counter of the member and
  the mode is updated with a count of zero; DoesNotExist of that update is
  caught. The result is the new \<open>total_game_count\<close>.
\<close>

definition history_mode_run ::
  "(request list \<Rightarrow> request \<Rightarrow> exc + pyval) \<Rightarrow> (pyval \<Rightarrow> exc + legacy_game) \<Rightarrow> string list
     \<Rightarrow> string \<Rightarrow> int \<Rightarrow> int \<Rightarrow> string list \<Rightarrow> int \<Rightarrow> int \<Rightarrow> legacy_world
     \<Rightarrow> (exc + int) \<times> legacy_world" where
  "history_mode_run d Game members member_name member_id member_join_date char_ids mode
       total_game_count w =
     (case PLAYER_COUNT mode of
        None \<Rightarrow> (Inl KeyError, w)
      | Some player_count \<Rightarrow>
          (case history_chars d Game members member_id member_join_date mode
                  (player_threshold_of player_count) char_ids 0 w of
             (Inl e, w1) \<Rightarrow> (Inl e, w1)
           | (Inr mode_count, w1) \<Rightarrow>
               (case update_game_session w1 member_name mode 0 of
                  (Inl e, w2) \<Rightarrow>
                    if e = DoesNotExist then (Inr (total_game_count + mode_count), w2)
                    else (Inl e, w2)
                | (Inr u, w2) \<Rightarrow> (Inr (total_game_count + mode_count), w2))))"

text \<open>The whole body of the loop over the mode ids: a mode whose counter is
  fresh adds the stored count and is skipped.\<close>

definition history_mode ::
  "(request list \<Rightarrow> request \<Rightarrow> exc + pyval) \<Rightarrow> (pyval \<Rightarrow> exc + legacy_game) \<Rightarrow> string list
     \<Rightarrow> string \<Rightarrow> int \<Rightarrow> int \<Rightarrow> string list \<Rightarrow> bool \<Rightarrow> int \<Rightarrow> int \<Rightarrow> legacy_world
     \<Rightarrow> (exc + int) \<times> legacy_world" where
  "history_mode d Game members member_name member_id member_join_date char_ids check_date
       mode total_game_count w =
     (case get_game_session w member_name mode of
        (Inr session, w1) \<Rightarrow>
          if fresh w1 session check_date
          then (Inr (total_game_count + gs_count session), w1)
          else history_mode_run d Game members member_name member_id member_join_date
                 char_ids mode total_game_count w1
      | (Inl e, w1) \<Rightarrow>
          if e = DoesNotExist
          then history_mode_run d Game members member_name member_id member_join_date
                 char_ids mode total_game_count w1
          else (Inl e, w1))"

fun history_modes ::
  "(request list \<Rightarrow> request \<Rightarrow> exc + pyval) \<Rightarrow> (pyval \<Rightarrow> exc + legacy_game) \<Rightarrow> string list
     \<Rightarrow> string \<Rightarrow> int \<Rightarrow> int \<Rightarrow> string list \<Rightarrow> bool \<Rightarrow> int list \<Rightarrow> int \<Rightarrow> legacy_world
     \<Rightarrow> (exc + int) \<times> legacy_world" where
  "history_modes d Game members member_name member_id member_join_date char_ids check_date
       [] total_game_count w = (Inr total_game_count, w)"
| "history_modes d Game members member_name member_id member_join_date char_ids check_date
       (mode # rest) total_game_count w =
     (case history_mode d Game members member_name member_id member_join_date char_ids
             check_date mode total_game_count w of
        (Inl e, w1) \<Rightarrow> (Inl e, w1)
      | (Inr total2, w1) \<Rightarrow>
          history_modes d Game members member_name member_id member_join_date char_ids
            check_date rest total2 w1)"

text \<open>
  \<open>get_member_history(database, destiny, member_name, game_mode, check_date)\<close>.
  For a category outside the five branches \<open>game_mode_id\<close> is never assigned, and
  reading it in the \<open>isinstance\<close> test raises UnboundLocalError.
\<close>

definition get_member_history ::
  "(request list \<Rightarrow> request \<Rightarrow> exc + pyval) \<Rightarrow> (pyval \<Rightarrow> exc + legacy_game) \<Rightarrow> string
     \<Rightarrow> string \<Rightarrow> bool \<Rightarrow> legacy_world \<Rightarrow> (exc + int) \<times> legacy_world" where
  "get_member_history d Game member_name game_mode check_date w =
     (case choose_game_mode_id game_mode of
        None \<Rightarrow> (Inl UnboundLocalError, w)
      | Some game_mode_id \<Rightarrow>
          (case get_members w of
             (Inl e, w1) \<Rightarrow> (Inl e, w1)
           | (Inr member_rows, w1) \<Rightarrow>
               (case get_member w1 member_name of
                  (Inl e, w2) \<Rightarrow> (Inl e, w2)
                | (Inr member_db, w2) \<Rightarrow>
                    (case get_profile d (lm_bungie_id member_db) w2 of
                       (Inl e, w3) \<Rightarrow> (Inl e, w3)
                     | (Inr profile, w3) \<Rightarrow>
                         (case py_getitem3 profile ''Response'' ''characters'' ''data'' of
                            Inl e \<Rightarrow> (Inl e, w3)
                          | Inr characters \<Rightarrow>
                              (case py_keys characters of
                                 Inl e \<Rightarrow> (Inl e, w3)
                               | Inr char_ids \<Rightarrow>
                                   history_modes d Game (map lm_xbox_username member_rows)
                                     member_name (lm_bungie_id member_db)
                                     (lm_join_date member_db) char_ids check_date
                                     (game_mode_list_of game_mode_id) 0 w3))))))"

section \<open>Helper definitions and concrete inputs\<close>

text \<open>The part of the world the API access layer leaves alone: the stored games
  and the logged summaries.\<close>

definition frame :: "world \<Rightarrow> world \<Rightarrow> bool" where
  "frame w w2 = (games w2 = games w \<and> summaries w2 = summaries w)"



text \<open>Inputs the theorems are run on: the platform ids of the upstream API, a
  raid mode with a threshold of two, and a store with nothing in it.\<close>

definition example_constants :: constants where
  "example_constants =
     \<lparr>c_PLATFORM_BUNGIE = 254, c_PLATFORM_PSN = 2, c_PLATFORM_XBOX = 1,
      c_PLATFORM_BLIZZARD = 4, c_PLATFORM_STEAM = 3, c_PLATFORM_STADIA = 5,
      c_COMPONENT_CHARACTERS = 200, c_TIME_MIN_SECONDS = 60, c_TIME_HOUR_SECONDS = 3600,
      c_FORSAKEN_RELEASE = 1536084000,
      c_SUPPORTED_GAME_MODES = [''raid'' \<mapsto> [4]],
      c_MODE_MAP = [4 \<mapsto> \<lparr>threshold = 2, title = ''raid''\<rparr>]\<rparr>"

definition empty_world :: world where
  "empty_world =
     \<lparr>redis = Map.empty, clock = 0, redis_writable = True, upstream_log = [],
      games = [], next_game_pk = 1, clan_games = [], game_members = [],
      member_table = [], guilds = [], clans = [], summaries = []\<rparr>"

definition one_activity :: pyval where
  "one_activity = PList [PDict [(''activityDetails'', PDict [(''instanceId'', PStr ''42'')])]]"

text \<open>An upstream that answers every request with a history of one activity,
  and one that fails every request.\<close>

definition history_bot :: bot where
  "history_bot =
     \<lparr>destiny = (\<lambda>log func. Inr (PDict [(''Response'', PDict [(''activities'', one_activity)])])),
      activity_cutoff = 0\<rparr>"

definition failing_bot :: bot where
  "failing_bot = \<lparr>destiny = (\<lambda>log func. Inl PydestException), activity_cutoff = 0\<rparr>"

text \<open>A store whose maintenance flag is set and expires at time 60, and one
  with a damaged entry under the key of match report 42.\<close>

definition maintenance_world :: world where
  "maintenance_world =
     empty_world\<lparr>redis := [''global-bungie-maintenance'' \<mapsto> (RawBytes ''True'', 60)]\<rparr>"

definition damaged_world :: world where
  "damaged_world = empty_world\<lparr>redis := [''42-pcgr'' \<mapsto> (RawBytes ''garbage'', 60)]\<rparr>"

text \<open>A store that holds the same pickled activity list under four keys, and
  the store the first history call of member 7 leaves behind.\<close>

definition warm_world :: world where
  "warm_world =
     empty_world\<lparr>redis := [''some-key'' \<mapsto> (Pickle one_activity, 60),
                              ''7-activity-history'' \<mapsto> (Pickle one_activity, 60),
                              ''42-pcgr'' \<mapsto> (Pickle one_activity, 60),
                              ''7-profile'' \<mapsto> (Pickle one_activity, 60)]\<rparr>"

definition after_first_call :: world where
  "after_first_call =
     empty_world\<lparr>upstream_log := [GetActivityHistory 1 7 ''A'' 4 30],
                  redis := [''7-activity-history'' \<mapsto> (Pickle one_activity, 2700)]\<rparr>"

text \<open>
  A guild of one tracked clan with two members. Alice (Xbox id 7) was active
  lately and Bob (Xbox id 8) was not; both joined on 2019-01-01. The raid of
  2019-02-01, activity 42, has both among its tracked players. Upstream answers
  a profile request with one character, a history request with activity 42 and
  a report request with a report, which the parser reads as that raid.
\<close>

definition alice :: member_db where
  "alice = \<lparr>m_id = 1, bungie_id = 0, bungie_username = '''', psn_id = 0, psn_username = '''',
            xbox_id = 7, xbox_username = ''alice'', blizzard_id = 0, blizzard_username = '''',
            steam_id = 0, steam_username = '''', stadia_id = 0, stadia_username = '''',
            clanmember = \<lparr>platform_id = 1, clan_id = 1, join_date = 1546300800,
                           last_active = 1600000000\<rparr>\<rparr>"

definition bob :: member_db where
  "bob = \<lparr>m_id = 2, bungie_id = 0, bungie_username = '''', psn_id = 0, psn_username = '''',
          xbox_id = 8, xbox_username = ''bob'', blizzard_id = 0, blizzard_username = '''',
          steam_id = 0, steam_username = '''', stadia_id = 0, stadia_username = '''',
          clanmember = \<lparr>platform_id = 1, clan_id = 1, join_date = 1546300800,
                         last_active = 0\<rparr>\<rparr>"

definition raid_game :: clan_game where
  "raid_game =
     \<lparr>instance_id = 42, date = 1548979200, mode_id = 4,
      clan_players =
        [\<lparr>membership_id = 7, membership_type = 1, completed = True, time_played = 1800\<rparr>,
         \<lparr>membership_id = 8, membership_type = 1, completed = True, time_played = 1800\<rparr>]\<rparr>"

definition raid_details :: mode_details where
  "raid_details = \<lparr>threshold = 2, title = ''raid''\<rparr>"

definition raid_pgcr :: pyval where
  "raid_pgcr = PDict [(''period'', PStr ''2019-02-01T00:00:00Z'')]"

definition raid_bot :: bot where
  "raid_bot =
     \<lparr>destiny = (\<lambda>log func. case func of
          GetProfile p i cs \<Rightarrow>
            Inr (PDict [(''Response'', PDict [(''characters'',
                   PDict [(''data'', PDict [(''A'', PDict [])])])])])
        | GetActivityHistory p i ch mo n \<Rightarrow>
            Inr (PDict [(''Response'', PDict [(''activities'', one_activity)])])
        | GetPostGameCarnageReport a \<Rightarrow> Inr (PDict [(''Response'', raid_pgcr)])),
      activity_cutoff = 0\<rparr>"

definition guild_world :: world where
  "guild_world =
     empty_world\<lparr>guilds := [\<lparr>guild_id = 10, aggregate_clans = False\<rparr>],
                  clans := [\<lparr>clan_pk = 1, clan_guild = 10, activity_tracking = True\<rparr>],
                  member_table := [alice, bob],
                  clock := 1600000100\<rparr>"

text \<open>The world after Alice's history was stored, and after the fan-out logged
  its summary.\<close>

definition after_raid_world :: world where
  "after_raid_world =
     guild_world
       \<lparr>redis := [''7-profile'' \<mapsto> (Pickle (PDict [(''A'', PDict [])]), 1600003700),
                  ''7-activity-history'' \<mapsto> (Pickle one_activity, 1600002800),
                  ''42-pcgr'' \<mapsto> (Pickle raid_pgcr, 1600003700)],
        upstream_log := [GetProfile 1 7 [200], GetActivityHistory 1 7 ''A'' 4 30,
                         GetPostGameCarnageReport (PStr ''42'')],
        games := [\<lparr>game_pk = 1, g_instance_id = 42, g_date = 1548979200, g_mode_id = 4\<rparr>],
        next_game_pk := 2,
        clan_games := [(1, 1)],
        game_members :=
          [\<lparr>gm_member = 1, gm_game = 1, gm_completed = True, gm_time_played = 1800\<rparr>,
           \<lparr>gm_member = 2, gm_game = 1, gm_completed = True, gm_time_played = 1800\<rparr>]\<rparr>"

definition after_fanout_world :: world where
  "after_fanout_world = after_raid_world\<lparr>summaries := [1]\<rparr>"

text \<open>The stored row of the raid, two observations of Alice in it (one
  completed, one not), and a world that holds her completed row.\<close>

definition raid_row :: game_db where
  "raid_row = \<lparr>game_pk = 1, g_instance_id = 42, g_date = 1548979200, g_mode_id = 4\<rparr>"

definition alice_done :: clan_player where
  "alice_done = \<lparr>membership_id = 7, membership_type = 1, completed = True, time_played = 1800\<rparr>"

definition alice_quit :: clan_player where
  "alice_quit = \<lparr>membership_id = 7, membership_type = 1, completed = False, time_played = 600\<rparr>"

definition one_member_world :: world where
  "one_member_world =
     guild_world\<lparr>game_members :=
       [\<lparr>gm_member = 1, gm_game = 1, gm_completed = True, gm_time_played = 1800\<rparr>]\<rparr>"

text \<open>
  Helper notions of the legacy flow: how often the log of a world holds the
  zero-count update of a member and a mode, the counter row of a member and a
  mode, the freshness gate read on that row (the mode is skipped), and the
  three-part qualification of the legacy flow.
\<close>

definition zero_updates :: "string \<Rightarrow> int \<Rightarrow> legacy_world \<Rightarrow> nat" where
  "zero_updates name mode w = count_list (lw_db_log w) (UpdateGameSession name mode 0)"

definition legacy_kept :: "string \<Rightarrow> int \<Rightarrow> legacy_world \<Rightarrow> legacy_world \<Rightarrow> bool" where
  "legacy_kept name mode w w2 =
     (zero_updates name mode w2 = zero_updates name mode w \<and> lw_games w2 = lw_games w)"













section \<open>The API access layer: theorems\<close>

lemma str_int_7: "str_int 7 = ''7''"
  by code_simp

lemma execute_pydest_Inr:
  "execute_pydest c b func w = (Inr r, w1) \<Longrightarrow> w1 = w\<lparr>upstream_log := upstream_log w @ [func]\<rparr>"
  by (auto simp: execute_pydest_def await_upstream_def redis_set_def Let_def
           split: sum.splits prod.splits if_splits option.splits bool.splits)

lemma cached_upstream_log [simp]: "cached (w\<lparr>upstream_log := l\<rparr>) k = cached w k"
  by (auto simp: cached_def redis_get_def split: option.splits)

lemma cached_set_data_None:
  "cached w k = None \<Longrightarrow> cached (set_data w k v ttl) k \<noteq> None
     \<Longrightarrow> cached (set_data w k v ttl) k = Some (Pickle v)"
  by (auto simp: cached_def redis_get_def set_data_def redis_set_def pickle_dumps_def
           split: option.splits if_splits)

text \<open>
  C1. The claim: while the maintenance flag is set and unexpired, a call through
  \<open>execute_pydest\<close> is skipped and MaintenanceError is raised without the upstream
  function being invoked. The code does otherwise: with the flag set, the body
  awaits the upstream call before it raises, so the request is sent on every
  run of the body; MaintenanceError is raised when the call returns, and the
  call's own exception gets out when it raises.
\<close>

theorem execute_pydest_maintenance_awaits_upstream:
  assumes "redis_get w ''global-bungie-maintenance'' = Some (RawBytes ''True'')"
  shows "execute_pydest c b func w
           = ((case destiny b (upstream_log w) func of
                 Inl e \<Rightarrow> Inl e
               | Inr r \<Rightarrow> Inl MaintenanceError),
              w\<lparr>upstream_log := upstream_log w @ [func]\<rparr>)"
  using assms
  by (simp add: execute_pydest_def await_upstream_def split: sum.splits prod.splits)

theorem execute_pydest_maintenance_awaits_upstream_witness:
  "redis_get maintenance_world ''global-bungie-maintenance'' = Some (RawBytes ''True'')
   \<and> execute_pydest example_constants history_bot (GetProfile 1 7 [200]) maintenance_world
       = (Inl MaintenanceError, maintenance_world\<lparr>upstream_log := [GetProfile 1 7 [200]]\<rparr>)"
proof -
  have h: "redis_get maintenance_world ''global-bungie-maintenance'' = Some (RawBytes ''True'')"
    by (simp add: redis_get_def maintenance_world_def empty_world_def)
  from execute_pydest_maintenance_awaits_upstream
         [OF h, of example_constants history_bot "GetProfile 1 7 [200]"] h
  show ?thesis by (simp add: maintenance_world_def empty_world_def history_bot_def)
qed

text \<open>
  C7, as stated: a stored blob that fails to deserialize is treated as a cache
  miss, the error is not propagated and the value is fetched again. It fails on
  the damaged entry of match report 42: \<open>get_pgcr\<close> raises the error of
  \<open>pickle.loads\<close> and sends nothing upstream.
\<close>

theorem get_pgcr_damaged_entry_raises:
  "get_pgcr example_constants history_bot (PStr ''42'') damaged_world
     = (Inl UnpicklingError, damaged_world)"
  by (simp add: get_pgcr_def cached_def redis_get_def damaged_world_def empty_world_def)

text \<open>
  C7, amended: in each of the four cache reads (\<open>get_data\<close>,
  \<open>get_activity_history\<close>, \<open>get_pgcr\<close>, \<open>get_characters\<close>) a stored, live,
  non-empty blob is deserialized and the outcome of that, value or error, is
  the outcome of the read; nothing is sent upstream and nothing is written.
\<close>

theorem cache_hit_is_deserialized:
  "(cached w key = Some blob \<longrightarrow> get_data c b key func w = (pickle_loads blob, w))
   \<and> (cached w (str_int member_id @ ''-activity-history'') = Some blob \<longrightarrow>
        get_activity_history c b platform member_id char_id mode cnt w = (pickle_loads blob, w))
   \<and> (cached w (py_str activity_id @ ''-pcgr'') = Some blob \<longrightarrow>
        get_pgcr c b activity_id w = (pickle_loads blob, w))
   \<and> (cached w (str_int member_id @ ''-profile'') = Some blob \<longrightarrow>
        get_characters c b member_id platform w = (pickle_loads blob, w))"
  by (simp add: get_data_def get_activity_history_def get_pgcr_def get_characters_def)

theorem cache_hit_is_deserialized_witness:
  "cached warm_world ''some-key'' = Some (Pickle one_activity)
   \<and> cached warm_world (str_int 7 @ ''-activity-history'') = Some (Pickle one_activity)
   \<and> cached warm_world (py_str (PStr ''42'') @ ''-pcgr'') = Some (Pickle one_activity)
   \<and> cached warm_world (str_int 7 @ ''-profile'') = Some (Pickle one_activity)
   \<and> get_data example_constants failing_bot ''some-key'' (GetProfile 1 7 [200]) warm_world
        = (Inr one_activity, warm_world)
   \<and> get_activity_history example_constants failing_bot 1 7 ''A'' 4 30 warm_world
        = (Inr one_activity, warm_world)
   \<and> get_pgcr example_constants failing_bot (PStr ''42'') warm_world
        = (Inr one_activity, warm_world)
   \<and> get_characters example_constants failing_bot 7 1 warm_world
        = (Inr one_activity, warm_world)"
proof -
  have h1: "cached warm_world ''some-key'' = Some (Pickle one_activity)"
    and h2: "cached warm_world (str_int 7 @ ''-activity-history'') = Some (Pickle one_activity)"
    and h3: "cached warm_world (py_str (PStr ''42'') @ ''-pcgr'') = Some (Pickle one_activity)"
    and h4: "cached warm_world (str_int 7 @ ''-profile'') = Some (Pickle one_activity)"
    by (simp_all add: cached_def redis_get_def warm_world_def empty_world_def str_int_7)
  from cache_hit_is_deserialized
         [where w = warm_world and key = "''some-key''" and blob = "Pickle one_activity"
            and c = example_constants and b = failing_bot and func = "GetProfile 1 7 [200]"
            and member_id = 7 and platform = 1 and char_id = "''A''" and mode = 4
            and cnt = 30 and activity_id = "PStr ''42''"]
       h1 h2 h3 h4
  show ?thesis by simp
qed

text \<open>
  C9. The key of the activity-history cache holds the member id only: when a
  call for a member returned an activity list and left a live entry, a second
  call for the same member in any world where that entry is unchanged returns
  the same list, without going upstream, whatever its platform, character,
  mode or count.
\<close>

theorem get_activity_history_keyed_by_member_only:
  assumes first: "get_activity_history c b p member_id char1 mode1 cnt1 w = (Inr activities, w1)"
      and live: "cached w1 (str_int member_id @ ''-activity-history'') \<noteq> None"
      and same: "cached w2 (str_int member_id @ ''-activity-history'')
                   = cached w1 (str_int member_id @ ''-activity-history'')"
  shows "get_activity_history c2 b2 p2 member_id char2 mode2 cnt2 w2 = (Inr activities, w2)"
proof -
  let ?k = "str_int member_id @ ''-activity-history''"
  have entry: "\<exists>blob. cached w1 ?k = Some blob \<and> pickle_loads blob = Inr activities"
  proof (cases "cached w ?k")
    case (Some blob)
    with first have "w1 = w" "pickle_loads blob = Inr activities"
      by (simp_all add: get_activity_history_def)
    with Some show ?thesis by simp
  next
    case None
    from first None obtain data w' where
      ex: "execute_pydest c b (GetActivityHistory p member_id char1 mode1 cnt1) w = (Inr data, w')"
      by (auto simp: get_activity_history_def split: prod.splits sum.splits if_splits)
    from execute_pydest_Inr [OF ex] None have miss: "cached w' ?k = None" by simp
    show ?thesis
    proof (cases "py_getitem2 data ''Response'' ''activities''")
      case (Inl e)
      with first None ex have "w1 = w'"
        by (auto simp: get_activity_history_def split: if_splits)
      with miss live show ?thesis by simp
    next
      case (Inr acts)
      with first None ex have eq: "activities = acts"
        "w1 = set_data w' ?k acts (c_TIME_MIN_SECONDS c * 45)"
        by (auto simp: get_activity_history_def)
      from live eq miss have "cached w1 ?k = Some (Pickle acts)"
        using cached_set_data_None by blast
      with eq show ?thesis by simp
    qed
  qed
  then obtain blob where "cached w1 ?k = Some blob" "pickle_loads blob = Inr activities"
    by blast
  with same show ?thesis by (simp add: get_activity_history_def)
qed

theorem get_activity_history_keyed_by_member_only_witness:
  "get_activity_history example_constants history_bot 1 7 ''A'' 4 30 empty_world
     = (Inr one_activity, after_first_call)
   \<and> cached after_first_call (str_int 7 @ ''-activity-history'') \<noteq> None
   \<and> get_activity_history example_constants failing_bot 2 7 ''B'' 5 10
        (after_first_call\<lparr>clock := 100\<rparr>)
     = (Inr one_activity, after_first_call\<lparr>clock := 100\<rparr>)"
proof -
  have h1: "get_activity_history example_constants history_bot 1 7 ''A'' 4 30 empty_world
     = (Inr one_activity, after_first_call)"
    by (simp add: get_activity_history_def execute_pydest_def await_upstream_def cached_def
        redis_get_def redis_set_def set_data_def pickle_dumps_def py_getitem2_def str_int_7
        example_constants_def empty_world_def history_bot_def after_first_call_def)
  have h2: "cached after_first_call (str_int 7 @ ''-activity-history'') \<noteq> None"
    by (simp add: cached_def redis_get_def str_int_7 empty_world_def after_first_call_def)
  have h3: "cached (after_first_call\<lparr>clock := 100\<rparr>) (str_int 7 @ ''-activity-history'')
              = cached after_first_call (str_int 7 @ ''-activity-history'')"
    by (simp add: cached_def redis_get_def str_int_7 empty_world_def after_first_call_def)
  from get_activity_history_keyed_by_member_only
         [OF h1 h2 h3, of example_constants failing_bot 2 "''B''" 5 10] h1 h2
  show ?thesis by simp
qed

section \<open>Eligibility and aggregation: theorems\<close>

lemmas run_defs =
  store_member_history_def parse_platform_def get_characters_def
  execute_pydest_def await_upstream_def cached_def redis_get_def redis_set_def set_data_def
  pickle_dumps_def py_getitem3_def py_getitem2_def get_activity_list_def
  get_activity_history_def fetch_pgcr_def get_pgcr_def store_game_def not_eligible_def
  db_get_game_def db_create_game_def store_clan_game_def db_get_clan_game_def
  db_create_clan_game_def db_get_clan_member_by_platform_def platform_member_id_def
  db_create_game_member_def db_get_game_member_def db_update_game_member_def
  merge_game_member_def same_pair_def Let_def

lemmas fixture_defs =
  example_constants_def guild_world_def empty_world_def raid_bot_def alice_def
  bob_def raid_game_def one_activity_def after_raid_world_def raid_pgcr_def raid_row_def
  alice_done_def alice_quit_def raid_details_def after_fanout_world_def one_member_world_def

lemma merge_game_member_eq:
  "merge_game_member r p =
     r\<lparr>gm_time_played := gm_time_played r + time_played p, gm_completed := completed p\<rparr>"
  by (cases "gm_completed r"; cases "completed p"; simp add: merge_game_member_def Let_def)

lemma find_update_same_pair:
  "find (\<lambda>r. same_pair r g m) rows = Some r0 \<Longrightarrow> same_pair row g m \<Longrightarrow>
   find (\<lambda>r. same_pair r g m) (map (\<lambda>r. if same_pair r g m then row else r) rows) = Some row"
  by (induction rows) (auto split: if_splits)

text \<open>
  C2, as stated: the update of an existing GameMember row only ever upgrades
  the completion flag, and a stored true flag is never set back to false. It
  fails when a player is listed twice in a match, first as having completed it
  and then as not: the row created for the first entry is updated by the second
  to 2400 seconds played and a flag of false.
\<close>

theorem store_players_downgrades_flag:
  "store_players example_constants alice raid_row [alice_done, alice_quit] guild_world
     = (Inr (),
        guild_world\<lparr>game_members :=
          [\<lparr>gm_member = 1, gm_game = 1, gm_completed = False, gm_time_played = 2400\<rparr>]\<rparr>)"
  by (simp add: run_defs fixture_defs)

text \<open>
  C2, amended: for every existing GameMember row and every later observation
  of the same (game, member) pair, the update adds the observed time played to
  the stored total and sets the completion flag to the observed flag: a stored
  false becomes true when the observation is true, and a stored true becomes
  false when the observation is false. The loop then goes on with the other
  players, and the row read back is the merged one.
\<close>

theorem store_players_merges_existing_row:
  assumes member: "db_get_clan_member_by_platform c w (membership_id p) (membership_type p)
                     (clan_id (clanmember m)) = Inr player_db"
      and stored: "db_get_game_member w (game_pk g) (m_id player_db) = Inr r"
  shows "store_players c m g (p # rest) w
           = store_players c m g rest
               (db_update_game_member w
                  (r\<lparr>gm_time_played := gm_time_played r + time_played p,
                     gm_completed := completed p\<rparr>))
         \<and> db_get_game_member
               (db_update_game_member w
                  (r\<lparr>gm_time_played := gm_time_played r + time_played p,
                     gm_completed := completed p\<rparr>))
               (game_pk g) (m_id player_db)
             = Inr (r\<lparr>gm_time_played := gm_time_played r + time_played p,
                      gm_completed := completed p\<rparr>)"
proof -
  from stored have f: "find (\<lambda>x. same_pair x (game_pk g) (m_id player_db)) (game_members w) = Some r"
    by (simp add: db_get_game_member_def split: option.splits)
  then have sp: "same_pair r (game_pk g) (m_id player_db)" and mem: "r \<in> set (game_members w)"
    by (auto simp: find_Some_iff)
  then have keys: "gm_game r = game_pk g" "gm_member r = m_id player_db"
    by (simp_all add: same_pair_def)
  let ?row = "r\<lparr>gm_time_played := gm_time_played r + time_played p, gm_completed := completed p\<rparr>"
  have sp2: "same_pair ?row (game_pk g) (m_id player_db)"
    using keys by (simp add: same_pair_def)
  from sp mem have ex: "\<exists>x \<in> set (game_members w). same_pair x (game_pk g) (m_id player_db)"
    by blast
  have run: "store_players c m g (p # rest) w
               = store_players c m g rest (db_update_game_member w ?row)"
    using member stored ex
    by (simp add: db_create_game_member_def merge_game_member_eq)
  have "db_get_game_member (db_update_game_member w ?row) (game_pk g) (m_id player_db) = Inr ?row"
    using find_update_same_pair [OF f sp2] keys
    by (simp add: db_get_game_member_def db_update_game_member_def)
  with run show ?thesis by simp
qed

theorem store_players_merges_existing_row_witness:
  "db_get_clan_member_by_platform example_constants one_member_world 7 1 1 = Inr alice
   \<and> db_get_game_member one_member_world 1 1
       = Inr \<lparr>gm_member = 1, gm_game = 1, gm_completed = True, gm_time_played = 1800\<rparr>
   \<and> store_players example_constants alice raid_row [alice_quit] one_member_world
       = (Inr (),
          guild_world\<lparr>game_members :=
            [\<lparr>gm_member = 1, gm_game = 1, gm_completed = False, gm_time_played = 2400\<rparr>]\<rparr>)"
proof -
  have h1: "db_get_clan_member_by_platform example_constants one_member_world
              (membership_id alice_quit) (membership_type alice_quit)
              (clan_id (clanmember alice)) = Inr alice"
    by (simp add: run_defs fixture_defs)
  have h2: "db_get_game_member one_member_world (game_pk raid_row) (m_id alice)
              = Inr \<lparr>gm_member = 1, gm_game = 1, gm_completed = True, gm_time_played = 1800\<rparr>"
    by (simp add: run_defs fixture_defs)
  from store_players_merges_existing_row [OF h1 h2, of "[]"] h1 h2
  show ?thesis
    by (simp add: db_update_game_member_def same_pair_def fixture_defs)
qed

subsection \<open>What each step leaves alone\<close>

lemma frame_refl [simp]: "frame w w"
  by (simp add: frame_def)


lemma frame_set_data [simp]: "frame w (set_data w k v ttl)"
  by (simp add: set_data_def redis_set_def frame_def)











subsection \<open>The Game row of a match\<close>





section \<open>The fan-out: theorems\<close>












section \<open>The legacy flow: theorems\<close>

text \<open>
  C10. For a mode category outside gambit, raid, pvp, pvp-quick and pvp-comp,
  \<open>get_member_history\<close> raises (UnboundLocalError, the mode id was never
  assigned) and the world is as it was: no call on the database and no upstream
  request was made.
\<close>

theorem get_member_history_unknown_mode_raises:
  assumes "game_mode \<notin> {''gambit'', ''raid'', ''pvp'', ''pvp-quick'', ''pvp-comp''}"
  shows "get_member_history d Game member_name game_mode check_date w
           = (Inl UnboundLocalError, w)"
  using assms by (simp add: get_member_history_def choose_game_mode_id_def)

theorem get_member_history_unknown_mode_raises_witness:
  "''trials'' \<notin> {''gambit'', ''raid'', ''pvp'', ''pvp-quick'', ''pvp-comp''}
   \<and> get_member_history (\<lambda>log func. Inl PydestException) (\<lambda>pgcr. Inl KeyError)
         ''alice'' ''trials'' True
         \<lparr>lw_members = [], lw_sessions = [], lw_games = [], lw_now = 0,
          lw_db_log = [], lw_upstream_log = []\<rparr>
       = (Inl UnboundLocalError,
          \<lparr>lw_members = [], lw_sessions = [], lw_games = [], lw_now = 0,
           lw_db_log = [], lw_upstream_log = []\<rparr>)"
proof -
  have h: "''trials'' \<notin> {''gambit'', ''raid'', ''pvp'', ''pvp-quick'', ''pvp-comp''}"
    by simp
  from get_member_history_unknown_mode_raises [OF h] h show ?thesis by simp
qed

subsection \<open>What the inner loops leave alone\<close>

lemma kept_refl [simp]: "legacy_kept n mo w w"
  by (simp add: legacy_kept_def)












subsection \<open>The counter of a mode\<close>




lemma zero_updates_logged_get [simp]:
  "zero_updates name mode (logged w (GetGameSession n m)) = zero_updates name mode w"
  by (simp add: zero_updates_def logged_def)







subsection \<open>The game of an activity\<close>













end
